theory Spec2Isabelle
  imports Complex_Main
begin

section \<open>The pilot list controller of standingsrequests\<close>

text \<open>
  The program is \<^verbatim>\<open>view_pilots.js\<close>:
  \<^verbatim>\<open>
  standingsApp.controller('PilotListController', function ($scope, $http) {
      $scope.getData = function () {
          $http.get(urls.pilots_json).then(function(response) {
              // Success
              $scope.pilots = response.data;
          }, function(response) {
              // Unsuccessful
          });
      };

      $scope.currentPage = 1;
      $scope.pageSize = '50';
      $scope.getData();
  });
  \<close>
  The controller writes three properties of its scope, issues one GET request and
  attaches two handlers to the promise of that request. The handlers run later, when
  the request settles, on the same event loop. The embedding keeps the scope, the
  requests in flight and the history of effects in one state record, and lets the
  environment (the view and the HTTP client) act through events.
\<close>

subsection \<open>Values\<close>

text \<open>
  A JavaScript value, as far as a JSON payload and the controller's literals need it. The
  controller never inspects a payload, so the shape of the values inside is irrelevant
  to it.
\<close>

datatype jsval =
    JUndefined
  | JNull
  | JBool bool
  | JNum real
  | JStr string
  | JArr "jsval list"
  | JObj "(string \<times> jsval) list"

text \<open>How the body of a function ends: it returns a value or throws one.\<close>

datatype completion = Normal jsval | Throw jsval

text \<open>How a promise settles.\<close>

datatype ('v, 'e) outcome = Fulfilled 'v | Rejected 'e

text \<open>
  Why a promise derived by \<^verbatim>\<open>then\<close> is rejected: a handler threw, or the rejection of the
  original promise passed through because no rejection handler was given.
\<close>

datatype 'e reason = Thrown jsval | Passed 'e

text \<open>
  The response object the HTTP client hands to either handler. The controller reads only
  its \<^verbatim>\<open>data\<close> property.
\<close>

record response =
  data :: jsval
  status :: int

text \<open>
  The global \<^verbatim>\<open>urls\<close> is declared by the page that loads the script, not by the script:
  it is a parameter of the model.
\<close>

record urls =
  pilots_json :: string

subsection \<open>State\<close>

text \<open>
  The scope properties the controller and the view use. A property that has never been
  assigned is absent (\<open>None\<close>); reading an absent property yields \<^verbatim>\<open>undefined\<close>.
\<close>

record scope =
  pilots :: "jsval option"
  currentPage :: "jsval option"
  pageSize :: "jsval option"

datatype field = F_pilots | F_currentPage | F_pageSize

text \<open>
  An effect is an assignment to a scope property or a GET request leaving for the
  network, tagged with the number that identifies its promise.
\<close>

datatype effect = Assign field jsval | Get nat string

record state =
  scope :: scope
  pending :: "nat list"
  trace :: "effect list"

definition fresh :: state where
  "fresh = \<lparr>scope = \<lparr>pilots = None, currentPage = None, pageSize = None\<rparr>,
            pending = [], trace = []\<rparr>"

definition read_prop :: "jsval option \<Rightarrow> jsval" where
  "read_prop p = (case p of None \<Rightarrow> JUndefined | Some v \<Rightarrow> v)"

text \<open>What the view reads.\<close>

definition view_pilots :: "state \<Rightarrow> jsval" where
  "view_pilots s = read_prop (pilots (scope s))"

definition view_currentPage :: "state \<Rightarrow> jsval" where
  "view_currentPage s = read_prop (currentPage (scope s))"

definition view_pageSize :: "state \<Rightarrow> jsval" where
  "view_pageSize s = read_prop (pageSize (scope s))"

fun assign_field :: "field \<Rightarrow> jsval \<Rightarrow> scope \<Rightarrow> scope" where
  "assign_field F_pilots v sc = sc\<lparr>pilots := Some v\<rparr>"
| "assign_field F_currentPage v sc = sc\<lparr>currentPage := Some v\<rparr>"
| "assign_field F_pageSize v sc = sc\<lparr>pageSize := Some v\<rparr>"

text \<open>\<^verbatim>\<open>$scope.f = v\<close>\<close>

definition assign :: "field \<Rightarrow> jsval \<Rightarrow> state \<Rightarrow> state" where
  "assign f v s = s\<lparr>scope := assign_field f v (scope s), trace := trace s @ [Assign f v]\<rparr>"

text \<open>The addresses of the GET requests of a history, in the order they were issued.\<close>

fun get_urls :: "effect list \<Rightarrow> string list" where
  "get_urls [] = []"
| "get_urls (Assign f v # es) = get_urls es"
| "get_urls (Get i u # es) = u # get_urls es"

text \<open>The writes to \<^verbatim>\<open>$scope.pilots\<close> of a history.\<close>

fun pilots_writes :: "effect list \<Rightarrow> jsval list" where
  "pilots_writes [] = []"
| "pilots_writes (Assign f v # es) = (if f = F_pilots then v # pilots_writes es else pilots_writes es)"
| "pilots_writes (Get i u # es) = pilots_writes es"

definition next_rid :: "state \<Rightarrow> nat" where
  "next_rid s = length (get_urls (trace s))"

subsection \<open>The HTTP client and its promises\<close>

text \<open>
  \<^verbatim>\<open>$http.get(url)\<close> sends the request and returns its promise at once; the request stays
  in flight until the environment settles it.
\<close>

definition http_get :: "string \<Rightarrow> state \<Rightarrow> nat \<times> state" where
  "http_get url s =
     (let rid = next_rid s
      in (rid, s\<lparr>pending := pending s @ [rid], trace := trace s @ [Get rid url]\<rparr>))"

text \<open>
  \<^verbatim>\<open>promise.then(onFulfilled, onRejected)\<close>, at the moment the promise settles: the handler
  for the outcome runs; the derived promise is fulfilled with what the handler returns and
  rejected with what it throws. Without a rejection handler a rejection passes through.
\<close>

definition then_promise ::
  "('v \<Rightarrow> state \<Rightarrow> completion \<times> state) \<Rightarrow> ('e \<Rightarrow> state \<Rightarrow> completion \<times> state) option \<Rightarrow>
   ('v, 'e) outcome \<Rightarrow> state \<Rightarrow> (jsval, 'e reason) outcome \<times> state" where
  "then_promise onFulfilled onRejected out s =
     (case out of
        Fulfilled v \<Rightarrow>
          (case onFulfilled v s of
             (Normal r, s') \<Rightarrow> (Fulfilled r, s')
           | (Throw x, s') \<Rightarrow> (Rejected (Thrown x), s'))
      | Rejected e \<Rightarrow>
          (case onRejected of
             None \<Rightarrow> (Rejected (Passed e), s)
           | Some h \<Rightarrow>
               (case h e s of
                  (Normal r, s') \<Rightarrow> (Fulfilled r, s')
                | (Throw x, s') \<Rightarrow> (Rejected (Thrown x), s'))))"

subsection \<open>The controller\<close>

text \<open>The first handler of \<^verbatim>\<open>getData\<close> (\<^verbatim>\<open>// Success\<close>).\<close>

definition getData_success :: "response \<Rightarrow> state \<Rightarrow> completion \<times> state" where
  "getData_success response s = (Normal JUndefined, assign F_pilots (data response) s)"

text \<open>The second handler of \<^verbatim>\<open>getData\<close> (\<^verbatim>\<open>// Unsuccessful\<close>): an empty body.\<close>

definition getData_unsuccessful :: "response \<Rightarrow> state \<Rightarrow> completion \<times> state" where
  "getData_unsuccessful response s = (Normal JUndefined, s)"

text \<open>
  \<^verbatim>\<open>$scope.getData\<close>: the request is issued and the two handlers are attached to its
  promise; the promise \<^verbatim>\<open>then\<close> derives is dropped, and the function returns
  \<^verbatim>\<open>undefined\<close>.
\<close>

definition getData :: "urls \<Rightarrow> state \<Rightarrow> completion \<times> state" where
  "getData u s = (let (rid, s') = http_get (pilots_json u) s in (Normal JUndefined, s'))"

text \<open>
  The request \<open>rid\<close> settles: it leaves the requests in flight and the handlers
  \<^verbatim>\<open>getData\<close> attached run. Every request is issued by \<^verbatim>\<open>getData\<close>, so every promise
  carries these two handlers. A request that is not in flight cannot settle (\<open>None\<close>).
\<close>

definition settle ::
  "nat \<Rightarrow> (response, response) outcome \<Rightarrow> state \<Rightarrow>
   ((jsval, response reason) outcome \<times> state) option" where
  "settle rid out s =
     (if rid \<in> set (pending s)
      then Some (then_promise getData_success (Some getData_unsuccessful) out
                   (s\<lparr>pending := removeAll rid (pending s)\<rparr>))
      else None)"

text \<open>The body of the controller function, statement by statement.\<close>

definition PilotListController :: "urls \<Rightarrow> state \<Rightarrow> completion \<times> state" where
  "PilotListController u s =
     (let s1 = assign F_currentPage (JNum 1) s;
          s2 = assign F_pageSize (JStr ''50'') s1;
          (c, s3) = getData u s2
      in (case c of Normal r \<Rightarrow> (Normal JUndefined, s3) | Throw x \<Rightarrow> (Throw x, s3)))"

subsection \<open>The environment\<close>

text \<open>
  After the controller has run, the view calls \<^verbatim>\<open>getData\<close> again or writes one of the two
  pagination properties, and the HTTP client settles requests in flight, in any order.
\<close>

datatype event =
    Refresh
  | Settle nat "(response, response) outcome"
  | SetPage jsval
  | SetPageSize jsval

fun step :: "urls \<Rightarrow> event \<Rightarrow> state \<Rightarrow> state option" where
  "step u Refresh s = Some (snd (getData u s))"
| "step u (Settle rid out) s = map_option snd (settle rid out s)"
| "step u (SetPage v) s = Some (assign F_currentPage v s)"
| "step u (SetPageSize v) s = Some (assign F_pageSize v s)"

fun run :: "urls \<Rightarrow> event list \<Rightarrow> state \<Rightarrow> state option" where
  "run u [] s = Some s"
| "run u (e # es) s = (case step u e s of None \<Rightarrow> None | Some s' \<Rightarrow> run u es s')"

text \<open>The state right after the controller has run on a new scope.\<close>

definition initialized :: "urls \<Rightarrow> state" where
  "initialized u = snd (PilotListController u fresh)"

text \<open>The payload of the last request of an event sequence that was fulfilled, if any.\<close>

fun last_success :: "event list \<Rightarrow> jsval option" where
  "last_success [] = None"
| "last_success (Settle rid (Fulfilled r) # es) =
     (case last_success es of None \<Rightarrow> Some (data r) | Some v \<Rightarrow> Some v)"
| "last_success (e # es) = last_success es"

text \<open>An event is a success when it is a request that is fulfilled.\<close>

fun is_success :: "event \<Rightarrow> bool" where
  "is_success (Settle rid (Fulfilled r)) = True"
| "is_success e = False"

text \<open>A payload is a sequence of records when it is an array.\<close>

fun is_sequence :: "jsval \<Rightarrow> bool" where
  "is_sequence (JArr xs) = True"
| "is_sequence v = False"

section \<open>Basic facts\<close>

lemma getData_eq:
  "getData u s =
     (Normal JUndefined,
      s\<lparr>pending := pending s @ [next_rid s], trace := trace s @ [Get (next_rid s) (pilots_json u)]\<rparr>)"
  by (simp add: getData_def http_get_def Let_def)

lemma settle_fulfilled:
  "rid \<in> set (pending s) \<Longrightarrow>
   settle rid (Fulfilled r) s =
     Some (Fulfilled JUndefined, assign F_pilots (data r) (s\<lparr>pending := removeAll rid (pending s)\<rparr>))"
  by (simp add: settle_def then_promise_def getData_success_def)

lemma settle_rejected:
  "rid \<in> set (pending s) \<Longrightarrow>
   settle rid (Rejected r) s = Some (Fulfilled JUndefined, s\<lparr>pending := removeAll rid (pending s)\<rparr>)"
  by (simp add: settle_def then_promise_def getData_unsuccessful_def)

lemma PilotListController_eq:
  "PilotListController u s =
     (Normal JUndefined,
      snd (getData u (assign F_pageSize (JStr ''50'') (assign F_currentPage (JNum 1) s))))"
  by (simp add: PilotListController_def getData_eq Let_def)

lemma get_urls_append: "get_urls (xs @ ys) = get_urls xs @ get_urls ys"
  by (induction xs rule: get_urls.induct) simp_all

lemma pilots_writes_append: "pilots_writes (xs @ ys) = pilots_writes xs @ pilots_writes ys"
  by (induction xs rule: pilots_writes.induct) simp_all

lemma next_rid_getData: "next_rid (snd (getData u s)) = Suc (next_rid s)"
  by (simp add: getData_eq next_rid_def get_urls_append)

lemma refresh_in_flight: "next_rid s \<in> set (pending (snd (getData u s)))"
  by (simp add: getData_eq)

lemma assign_frame:
  "pending (assign f v s) = pending s"
  "get_urls (trace (assign f v s)) = get_urls (trace s)"
  by (simp_all add: assign_def get_urls_append)

lemma assign_pagination_keeps_pilots:
  "f \<noteq> F_pilots \<Longrightarrow> pilots (scope (assign f v s)) = pilots (scope s)"
  "f \<noteq> F_pilots \<Longrightarrow> pilots_writes (trace (assign f v s)) = pilots_writes (trace s)"
  by (cases f; simp add: assign_def pilots_writes_append)+

text \<open>One event changes \<^verbatim>\<open>$scope.pilots\<close> only when it is a fulfilled request.\<close>

lemma step_pilots:
  assumes "step u e s = Some s'"
  shows "pilots (scope s') = (case last_success [e] of None \<Rightarrow> pilots (scope s) | Some v \<Rightarrow> Some v)"
proof (cases e)
  case Refresh
  with assms show ?thesis by (auto simp: getData_eq)
next
  case (Settle rid out)
  with assms have inflight: "rid \<in> set (pending s)"
    by (auto simp: settle_def split: if_splits)
  show ?thesis
  proof (cases out)
    case (Fulfilled r)
    with Settle assms inflight show ?thesis
      by (auto simp: settle_fulfilled assign_def)
  next
    case (Rejected r)
    with Settle assms inflight show ?thesis
      by (auto simp: settle_rejected)
  qed
next
  case (SetPage v)
  with assms show ?thesis by (auto simp: assign_def)
next
  case (SetPageSize v)
  with assms show ?thesis by (auto simp: assign_def)
qed

lemma last_success_Cons:
  "last_success (e # es) = (case last_success es of None \<Rightarrow> last_success [e] | Some v \<Rightarrow> Some v)"
  by (cases "(e # es)" rule: last_success.cases) (auto split: option.splits)

lemma run_pilots:
  "run u es s = Some s' \<Longrightarrow>
   pilots (scope s') = (case last_success es of None \<Rightarrow> pilots (scope s) | Some v \<Rightarrow> Some v)"
proof (induction es arbitrary: s)
  case Nil
  then show ?case by simp
next
  case (Cons e es)
  from Cons.prems obtain s1 where s1: "step u e s = Some s1" and rest: "run u es s1 = Some s'"
    by (auto split: option.splits)
  have "pilots (scope s') = (case last_success es of None \<Rightarrow> pilots (scope s1) | Some v \<Rightarrow> Some v)"
    using Cons.IH [OF rest] .
  moreover have "pilots (scope s1) = (case last_success [e] of None \<Rightarrow> pilots (scope s) | Some v \<Rightarrow> Some v)"
    using step_pilots [OF s1] .
  ultimately show ?case
    by (simp add: last_success_Cons [of e es] split: option.splits)
qed

text \<open>An event that is not a fulfilled request writes nothing to \<^verbatim>\<open>$scope.pilots\<close>.\<close>

lemma step_no_write:
  assumes "step u e s = Some s'" and "\<not> is_success e"
  shows "pilots_writes (trace s') = pilots_writes (trace s)"
proof (cases e)
  case Refresh
  with assms show ?thesis by (auto simp: getData_eq pilots_writes_append)
next
  case (Settle rid out)
  with assms have inflight: "rid \<in> set (pending s)"
    by (auto simp: settle_def split: if_splits)
  from Settle assms(2) obtain r where "out = Rejected r"
    by (cases out) auto
  with Settle assms inflight show ?thesis
    by (auto simp: settle_rejected)
next
  case (SetPage v)
  with assms show ?thesis by (auto simp: assign_pagination_keeps_pilots)
next
  case (SetPageSize v)
  with assms show ?thesis by (auto simp: assign_pagination_keeps_pilots)
qed

lemma run_no_write:
  "run u es s = Some s' \<Longrightarrow> list_all (\<lambda>e. \<not> is_success e) es \<Longrightarrow>
   pilots_writes (trace s') = pilots_writes (trace s)"
proof (induction es arbitrary: s)
  case Nil
  then show ?case by simp
next
  case (Cons e es)
  from Cons.prems(1) obtain s1 where s1: "step u e s = Some s1" and rest: "run u es s1 = Some s'"
    by (auto split: option.splits)
  from Cons.prems(2) have e: "\<not> is_success e" and es: "list_all (\<lambda>e. \<not> is_success e) es"
    by simp_all
  from Cons.IH [OF rest es] step_no_write [OF s1 e] show ?case by simp
qed

lemma no_success_last_success:
  "list_all (\<lambda>e. \<not> is_success e) es \<Longrightarrow> last_success es = None"
  by (induction es rule: last_success.induct) simp_all

lemma initialized_eq:
  "initialized u =
     \<lparr>scope = \<lparr>pilots = None, currentPage = Some (JNum 1), pageSize = Some (JStr ''50'')\<rparr>,
      pending = [0],
      trace = [Assign F_currentPage (JNum 1), Assign F_pageSize (JStr ''50''), Get 0 (pilots_json u)]\<rparr>"
  by (simp add: initialized_def PilotListController_eq getData_eq assign_def fresh_def next_rid_def)

section \<open>Initialisation\<close>

text \<open>
  C1, as the code has it. Right after the controller has run on a new scope, with its one
  request still in flight, \<^verbatim>\<open>$scope.pilots\<close> has never been assigned and reads as
  \<^verbatim>\<open>undefined\<close>, \<^verbatim>\<open>currentPage\<close> is the number 1 and \<^verbatim>\<open>pageSize\<close> is the text
  \<^verbatim>\<open>'50'\<close>.
\<close>

theorem C1_initial_state:
  "pilots (scope (initialized u)) = None \<and>
   pilots_writes (trace (initialized u)) = [] \<and>
   view_pilots (initialized u) = JUndefined \<and>
   view_currentPage (initialized u) = JNum 1 \<and>
   view_pageSize (initialized u) = JStr ''50'' \<and>
   pending (initialized u) = [0]"
  by (simp add: initialized_eq view_pilots_def view_currentPage_def view_pageSize_def read_prop_def)

text \<open>
  C1 as it is written fails: after the controller has run for the address
  \<^verbatim>\<open>/pilots.json\<close>, it is not the case that the view reads the empty sequence, page 1 and
  the number 50.
\<close>

theorem C1_counterexample:
  "\<not> (view_pilots (initialized \<lparr>pilots_json = ''/pilots.json''\<rparr>) = JArr [] \<and>
      view_currentPage (initialized \<lparr>pilots_json = ''/pilots.json''\<rparr>) = JNum 1 \<and>
      view_pageSize (initialized \<lparr>pilots_json = ''/pilots.json''\<rparr>) = JNum 50)"
  by (simp add: initialized_eq view_pilots_def read_prop_def)

text \<open>
  C8, as the code has it. From any state, the controller first assigns the number 1 to
  \<^verbatim>\<open>currentPage\<close>, then the text \<^verbatim>\<open>'50'\<close> to \<^verbatim>\<open>pageSize\<close>, and only then issues a GET
  request to the configured address: these are its only three effects, in this order.
  The state \<open>s2\<close> in which \<^verbatim>\<open>getData\<close> is called already holds both defaults, and no
  request has left since the controller started. Afterwards the scope holds the number 1
  as \<^verbatim>\<open>currentPage\<close> and the text \<^verbatim>\<open>'50'\<close> as \<^verbatim>\<open>pageSize\<close>, and \<^verbatim>\<open>$scope.pilots\<close> is
  as it was. The controller issues exactly one request, which is left in flight, and
  returns \<^verbatim>\<open>undefined\<close>.
\<close>

theorem C8_initialize_order:
  "fst (PilotListController u s) = Normal JUndefined \<and>
   trace (snd (PilotListController u s)) =
     trace s @ [Assign F_currentPage (JNum 1), Assign F_pageSize (JStr ''50''),
                Get (next_rid s) (pilots_json u)] \<and>
   get_urls (trace (snd (PilotListController u s))) = get_urls (trace s) @ [pilots_json u] \<and>
   pending (snd (PilotListController u s)) = pending s @ [next_rid s] \<and>
   get_urls (trace (initialized u)) = [pilots_json u] \<and>
   (\<exists>s2. PilotListController u s = getData u s2 \<and>
         currentPage (scope s2) = Some (JNum 1) \<and>
         pageSize (scope s2) = Some (JStr ''50'') \<and>
         view_currentPage s2 = JNum 1 \<and>
         view_pageSize s2 = JStr ''50'' \<and>
         pilots (scope s2) = pilots (scope s) \<and>
         trace s2 = trace s @ [Assign F_currentPage (JNum 1), Assign F_pageSize (JStr ''50'')] \<and>
         get_urls (trace s2) = get_urls (trace s) \<and>
         pending s2 = pending s) \<and>
   scope (snd (PilotListController u s)) =
     (scope s)\<lparr>currentPage := Some (JNum 1), pageSize := Some (JStr ''50'')\<rparr> \<and>
   view_currentPage (snd (PilotListController u s)) = JNum 1 \<and>
   view_pageSize (snd (PilotListController u s)) = JStr ''50'' \<and>
   scope (initialized u) =
     \<lparr>pilots = None, currentPage = Some (JNum 1), pageSize = Some (JStr ''50'')\<rparr>"
proof -
  define s2 where "s2 = assign F_pageSize (JStr ''50'') (assign F_currentPage (JNum 1) s)"
  have plc: "PilotListController u s = getData u s2"
    by (simp add: PilotListController_eq s2_def getData_eq)
  have sc2: "scope s2 = (scope s)\<lparr>currentPage := Some (JNum 1), pageSize := Some (JStr ''50'')\<rparr>"
    by (simp add: s2_def assign_def)
  have tr2: "trace s2 = trace s @ [Assign F_currentPage (JNum 1), Assign F_pageSize (JStr ''50'')]"
    by (simp add: s2_def assign_def)
  have pe2: "pending s2 = pending s"
    by (simp add: s2_def assign_frame)
  have gu2: "get_urls (trace s2) = get_urls (trace s)"
    by (simp add: s2_def assign_frame)
  have nr2: "next_rid s2 = next_rid s"
    by (simp add: next_rid_def gu2)
  have before: "\<exists>s2. PilotListController u s = getData u s2 \<and>
         currentPage (scope s2) = Some (JNum 1) \<and>
         pageSize (scope s2) = Some (JStr ''50'') \<and>
         view_currentPage s2 = JNum 1 \<and>
         view_pageSize s2 = JStr ''50'' \<and>
         pilots (scope s2) = pilots (scope s) \<and>
         trace s2 = trace s @ [Assign F_currentPage (JNum 1), Assign F_pageSize (JStr ''50'')] \<and>
         get_urls (trace s2) = get_urls (trace s) \<and>
         pending s2 = pending s"
    using plc sc2 tr2 pe2 gu2
    by (intro exI [of _ s2]) (simp add: view_currentPage_def view_pageSize_def read_prop_def)
  have after: "snd (PilotListController u s) =
      s2\<lparr>pending := pending s @ [next_rid s],
         trace := trace s2 @ [Get (next_rid s) (pilots_json u)]\<rparr>"
    by (simp add: plc getData_eq nr2 pe2)
  have rest: "fst (PilotListController u s) = Normal JUndefined \<and>
   trace (snd (PilotListController u s)) =
     trace s @ [Assign F_currentPage (JNum 1), Assign F_pageSize (JStr ''50''),
                Get (next_rid s) (pilots_json u)] \<and>
   get_urls (trace (snd (PilotListController u s))) = get_urls (trace s) @ [pilots_json u] \<and>
   pending (snd (PilotListController u s)) = pending s @ [next_rid s] \<and>
   scope (snd (PilotListController u s)) =
     (scope s)\<lparr>currentPage := Some (JNum 1), pageSize := Some (JStr ''50'')\<rparr> \<and>
   view_currentPage (snd (PilotListController u s)) = JNum 1 \<and>
   view_pageSize (snd (PilotListController u s)) = JStr ''50''"
    by (simp add: after sc2 tr2 gu2 get_urls_append view_currentPage_def view_pageSize_def
        read_prop_def) (simp add: PilotListController_eq)
  have init: "get_urls (trace (initialized u)) = [pilots_json u] \<and>
      scope (initialized u) =
        \<lparr>pilots = None, currentPage = Some (JNum 1), pageSize = Some (JStr ''50'')\<rparr>"
    by (simp add: initialized_eq)
  from before rest init show ?thesis by blast
qed

text \<open>
  C8 as it is written fails: the effects of the controller on a new scope are not
  "\<^verbatim>\<open>currentPage\<close> becomes 1, \<^verbatim>\<open>pageSize\<close> becomes the number 50, one GET".
\<close>

theorem C8_counterexample:
  "\<not> (trace (snd (PilotListController \<lparr>pilots_json = ''/pilots.json''\<rparr> fresh)) =
        [Assign F_currentPage (JNum 1), Assign F_pageSize (JNum 50), Get 0 ''/pilots.json''])"
  by (simp add: PilotListController_eq getData_eq assign_def next_rid_def fresh_def)

section \<open>Refresh\<close>

text \<open>
  C2. From any state, whatever \<^verbatim>\<open>$scope.pilots\<close> held: when \<^verbatim>\<open>getData\<close> is called and its
  request is fulfilled with a response whose payload is the sequence \<open>xs\<close>, then
  \<^verbatim>\<open>$scope.pilots\<close> is exactly \<open>xs\<close> afterwards, and the write of \<open>xs\<close> is the only write
  to it.
\<close>

theorem C2_success_replaces_collection:
  "\<exists>s'. run u [Refresh, Settle (next_rid s) (Fulfilled \<lparr>data = JArr xs, status = st\<rparr>)] s = Some s' \<and>
        pilots (scope s') = Some (JArr xs) \<and>
        view_pilots s' = JArr xs \<and>
        pilots_writes (trace s') = pilots_writes (trace s) @ [JArr xs]"
  by (simp add: settle_fulfilled refresh_in_flight assign_def view_pilots_def read_prop_def
      pilots_writes_append getData_eq)

text \<open>
  C3. From any state: \<^verbatim>\<open>getData\<close> returns normally, and when its request is rejected the
  rejection handler returns normally too, so the promise derived by \<^verbatim>\<open>then\<close> is
  fulfilled (the rejection is absorbed, not passed on); the scope is the one before the
  call, and the history gains the GET request and nothing else (no write, no second
  request).
\<close>

theorem C3_failure_absorbed:
  "fst (getData u s) = Normal JUndefined \<and>
   (\<exists>s'. settle (next_rid s) (Rejected r) (snd (getData u s)) = Some (Fulfilled JUndefined, s') \<and>
         scope s' = scope s \<and>
         view_pilots s' = view_pilots s \<and>
         trace s' = trace s @ [Get (next_rid s) (pilots_json u)])"
  by (simp add: settle_rejected refresh_in_flight view_pilots_def) (simp add: getData_eq)

text \<open>
  C4, as the code has it. A request in flight that is rejected, whatever its response
  carries, leaves \<^verbatim>\<open>$scope.pilots\<close> as it was; a request in flight that is fulfilled
  stores the payload of its response as it is, whether it is a sequence or not.
\<close>

theorem C4_payload_not_inspected:
  assumes "rid \<in> set (pending s)"
  shows "(\<exists>s'. settle rid (Rejected r) s = Some (Fulfilled JUndefined, s') \<and>
               pilots (scope s') = pilots (scope s)) \<and>
         (\<exists>s'. settle rid (Fulfilled r') s = Some (Fulfilled JUndefined, s') \<and>
               pilots (scope s') = Some (data r'))"
  using assms by (simp add: settle_fulfilled settle_rejected assign_def)

theorem C4_payload_not_inspected_witness:
  "0 \<in> set (pending (initialized \<lparr>pilots_json = ''/pilots.json''\<rparr>)) \<and>
   \<not> is_sequence (JStr ''maintenance'') \<and>
   (\<exists>s'. settle 0 (Rejected \<lparr>data = JStr ''Bad Gateway'', status = 502\<rparr>)
            (initialized \<lparr>pilots_json = ''/pilots.json''\<rparr>) = Some (Fulfilled JUndefined, s') \<and>
         pilots (scope s') = None) \<and>
   (\<exists>s'. settle 0 (Fulfilled \<lparr>data = JStr ''maintenance'', status = 200\<rparr>)
            (initialized \<lparr>pilots_json = ''/pilots.json''\<rparr>) = Some (Fulfilled JUndefined, s') \<and>
         pilots (scope s') = Some (JStr ''maintenance''))"
proof -
  have inflight: "0 \<in> set (pending (initialized \<lparr>pilots_json = ''/pilots.json''\<rparr>))"
    by (simp add: initialized_eq)
  have "pilots (scope (initialized \<lparr>pilots_json = ''/pilots.json''\<rparr>)) = None"
    by (simp add: initialized_eq)
  with inflight
    C4_payload_not_inspected [OF inflight, of "\<lparr>data = JStr ''Bad Gateway'', status = 502\<rparr>"
      "\<lparr>data = JStr ''maintenance'', status = 200\<rparr>"]
  show ?thesis by simp
qed

text \<open>
  C4 as it is written fails: the request of the controller is fulfilled with a response
  whose payload is an object, not a sequence; the view read \<^verbatim>\<open>undefined\<close> before and
  reads that object afterwards.
\<close>

theorem C4_counterexample:
  "\<not> is_sequence (JObj [(''detail'', JStr ''busy'')]) \<and>
   view_pilots (initialized \<lparr>pilots_json = ''/pilots.json''\<rparr>) = JUndefined \<and>
   map_option view_pilots
     (run \<lparr>pilots_json = ''/pilots.json''\<rparr>
        [Settle 0 (Fulfilled \<lparr>data = JObj [(''detail'', JStr ''busy'')], status = 200\<rparr>)]
        (initialized \<lparr>pilots_json = ''/pilots.json''\<rparr>))
     = Some (JObj [(''detail'', JStr ''busy'')])"
  by (simp add: initialized_eq view_pilots_def read_prop_def settle_fulfilled assign_def)

text \<open>
  C6. From every state, with or without requests in flight: a call of \<^verbatim>\<open>getData\<close>
  leaves \<^verbatim>\<open>currentPage\<close> and \<^verbatim>\<open>pageSize\<close> as they were, and so does the call followed by
  the settling of its request, whether the request is fulfilled or rejected and whatever
  its response carries. The settling of any other request in flight leaves them as they
  were too.
\<close>

theorem C6_refresh_keeps_pagination:
  "currentPage (scope (snd (getData u s))) = currentPage (scope s) \<and>
   pageSize (scope (snd (getData u s))) = pageSize (scope s) \<and>
   (\<exists>s'. run u [Refresh, Settle (next_rid s) out] s = Some s' \<and>
         currentPage (scope s') = currentPage (scope s) \<and>
         pageSize (scope s') = pageSize (scope s)) \<and>
   (rid \<in> set (pending s) \<longrightarrow>
     (\<exists>d s'. settle rid out s = Some (d, s') \<and>
             currentPage (scope s') = currentPage (scope s) \<and>
             pageSize (scope s') = pageSize (scope s)))"
proof (cases out)
  case (Fulfilled r)
  then show ?thesis
    by (simp add: settle_fulfilled refresh_in_flight assign_def) (simp add: getData_eq)
next
  case (Rejected r)
  then show ?thesis
    by (simp add: settle_rejected refresh_in_flight) (simp add: getData_eq)
qed

text \<open>
  Two instances. In the first, nothing is in flight: the request of the controller has
  been fulfilled and the view has moved to page 3 with 100 records a page; the next
  \<^verbatim>\<open>getData\<close> and the fulfilment of its request, which shrinks the collection to one
  record, leave page 3 and 100 in place. In the second, the request of the controller
  itself is rejected.
\<close>

theorem C6_refresh_keeps_pagination_witness:
  "pending \<lparr>scope = \<lparr>pilots = Some (JArr [JNum 7, JNum 8, JNum 9]),
                      currentPage = Some (JNum 3), pageSize = Some (JStr ''100'')\<rparr>,
            pending = [],
            trace = [Assign F_currentPage (JNum 1), Assign F_pageSize (JStr ''50''),
                     Get 0 ''/pilots.json'', Assign F_pilots (JArr [JNum 7, JNum 8, JNum 9]),
                     Assign F_currentPage (JNum 3), Assign F_pageSize (JStr ''100'')]\<rparr> = [] \<and>
   currentPage (scope (snd (getData \<lparr>pilots_json = ''/pilots.json''\<rparr>
      \<lparr>scope = \<lparr>pilots = Some (JArr [JNum 7, JNum 8, JNum 9]),
                currentPage = Some (JNum 3), pageSize = Some (JStr ''100'')\<rparr>,
       pending = [],
       trace = [Assign F_currentPage (JNum 1), Assign F_pageSize (JStr ''50''),
                Get 0 ''/pilots.json'', Assign F_pilots (JArr [JNum 7, JNum 8, JNum 9]),
                Assign F_currentPage (JNum 3), Assign F_pageSize (JStr ''100'')]\<rparr>)))
     = Some (JNum 3) \<and>
   (\<exists>s'. run \<lparr>pilots_json = ''/pilots.json''\<rparr>
            [Refresh, Settle 1 (Fulfilled \<lparr>data = JArr [JNum 7], status = 200\<rparr>)]
            \<lparr>scope = \<lparr>pilots = Some (JArr [JNum 7, JNum 8, JNum 9]),
                      currentPage = Some (JNum 3), pageSize = Some (JStr ''100'')\<rparr>,
             pending = [],
             trace = [Assign F_currentPage (JNum 1), Assign F_pageSize (JStr ''50''),
                      Get 0 ''/pilots.json'', Assign F_pilots (JArr [JNum 7, JNum 8, JNum 9]),
                      Assign F_currentPage (JNum 3), Assign F_pageSize (JStr ''100'')]\<rparr> = Some s' \<and>
         currentPage (scope s') = Some (JNum 3) \<and>
         pageSize (scope s') = Some (JStr ''100'')) \<and>
   0 \<in> set (pending (initialized \<lparr>pilots_json = ''/pilots.json''\<rparr>)) \<and>
   (\<exists>d s'. settle 0 (Rejected \<lparr>data = JNull, status = 500\<rparr>)
              (initialized \<lparr>pilots_json = ''/pilots.json''\<rparr>) = Some (d, s') \<and>
           currentPage (scope s') = Some (JNum 1) \<and>
           pageSize (scope s') = Some (JStr ''50''))"
proof -
  define idle where "idle =
     \<lparr>scope = \<lparr>pilots = Some (JArr [JNum 7, JNum 8, JNum 9]),
               currentPage = Some (JNum 3), pageSize = Some (JStr ''100'')\<rparr>,
      pending = [],
      trace = [Assign F_currentPage (JNum 1), Assign F_pageSize (JStr ''50''),
               Get 0 ''/pilots.json'', Assign F_pilots (JArr [JNum 7, JNum 8, JNum 9]),
               Assign F_currentPage (JNum 3), Assign F_pageSize (JStr ''100'')]\<rparr>"
  have idle_facts: "pending idle = []" "next_rid idle = 1"
    "currentPage (scope idle) = Some (JNum 3)" "pageSize (scope idle) = Some (JStr ''100'')"
    by (simp_all add: idle_def next_rid_def)
  have inflight: "0 \<in> set (pending (initialized \<lparr>pilots_json = ''/pilots.json''\<rparr>))"
    by (simp add: initialized_eq)
  have init_facts:
    "currentPage (scope (initialized \<lparr>pilots_json = ''/pilots.json''\<rparr>)) = Some (JNum 1)"
    "pageSize (scope (initialized \<lparr>pilots_json = ''/pilots.json''\<rparr>)) = Some (JStr ''50'')"
    by (simp_all add: initialized_eq)
  have first: "currentPage (scope (snd (getData \<lparr>pilots_json = ''/pilots.json''\<rparr> idle))) = Some (JNum 3) \<and>
     (\<exists>s'. run \<lparr>pilots_json = ''/pilots.json''\<rparr>
            [Refresh, Settle 1 (Fulfilled \<lparr>data = JArr [JNum 7], status = 200\<rparr>)] idle = Some s' \<and>
         currentPage (scope s') = Some (JNum 3) \<and>
         pageSize (scope s') = Some (JStr ''100''))"
    using C6_refresh_keeps_pagination [of "\<lparr>pilots_json = ''/pilots.json''\<rparr>" idle
        "Fulfilled \<lparr>data = JArr [JNum 7], status = 200\<rparr>" 0]
    by (simp only: idle_facts)
  have second: "\<exists>d s'. settle 0 (Rejected \<lparr>data = JNull, status = 500\<rparr>)
              (initialized \<lparr>pilots_json = ''/pilots.json''\<rparr>) = Some (d, s') \<and>
           currentPage (scope s') = Some (JNum 1) \<and>
           pageSize (scope s') = Some (JStr ''50'')"
    using C6_refresh_keeps_pagination [of "\<lparr>pilots_json = ''/pilots.json''\<rparr>"
        "initialized \<lparr>pilots_json = ''/pilots.json''\<rparr>"
        "Rejected \<lparr>data = JNull, status = 500\<rparr>" 0] inflight
    by (simp only: init_facts)
  from first second inflight idle_facts(1) show ?thesis
    by (simp add: idle_def)
qed

text \<open>
  C9. From any state, \<^verbatim>\<open>getData\<close> is called twice before either request settles, and both
  requests are then fulfilled. Whichever request is fulfilled last decides
  \<^verbatim>\<open>$scope.pilots\<close>: the payload of the second when the first settles first, the payload
  of the first when the second settles first. Neither request is cancelled: after one of
  them has settled the other is still in flight.
\<close>

theorem C9_last_resolved_wins:
  "(\<exists>s'. run u [Refresh, Refresh,
                 Settle (next_rid s) (Fulfilled r1), Settle (Suc (next_rid s)) (Fulfilled r2)] s = Some s' \<and>
         pilots (scope s') = Some (data r2)) \<and>
   (\<exists>s'. run u [Refresh, Refresh,
                 Settle (Suc (next_rid s)) (Fulfilled r2), Settle (next_rid s) (Fulfilled r1)] s = Some s' \<and>
         pilots (scope s') = Some (data r1)) \<and>
   (\<exists>s'. run u [Refresh, Refresh, Settle (next_rid s) (Fulfilled r1)] s = Some s' \<and>
         Suc (next_rid s) \<in> set (pending s')) \<and>
   (\<exists>s'. run u [Refresh, Refresh, Settle (Suc (next_rid s)) (Fulfilled r2)] s = Some s' \<and>
         next_rid s \<in> set (pending s'))"
proof -
  define s2 where "s2 = snd (getData u (snd (getData u s)))"
  have p2: "pending s2 = pending s @ [next_rid s, Suc (next_rid s)]"
    by (simp add: s2_def getData_eq next_rid_def get_urls_append)
  have i: "next_rid s \<in> set (pending s2)" and j: "Suc (next_rid s) \<in> set (pending s2)"
    by (simp_all add: p2)
  have a: "settle (next_rid s) (Fulfilled r1) s2 =
             Some (Fulfilled JUndefined,
                   assign F_pilots (data r1) (s2\<lparr>pending := removeAll (next_rid s) (pending s2)\<rparr>))"
    using i by (rule settle_fulfilled)
  have b: "settle (Suc (next_rid s)) (Fulfilled r2) s2 =
             Some (Fulfilled JUndefined,
                   assign F_pilots (data r2) (s2\<lparr>pending := removeAll (Suc (next_rid s)) (pending s2)\<rparr>))"
    using j by (rule settle_fulfilled)
  have c1: "\<exists>s'. run u [Refresh, Refresh,
                 Settle (next_rid s) (Fulfilled r1), Settle (Suc (next_rid s)) (Fulfilled r2)] s = Some s' \<and>
         pilots (scope s') = Some (data r2)"
    using j by (simp add: s2_def [symmetric] a settle_fulfilled assign_frame) (simp add: assign_def)
  have c2: "\<exists>s'. run u [Refresh, Refresh,
                 Settle (Suc (next_rid s)) (Fulfilled r2), Settle (next_rid s) (Fulfilled r1)] s = Some s' \<and>
         pilots (scope s') = Some (data r1)"
    using i by (simp add: s2_def [symmetric] b settle_fulfilled assign_frame) (simp add: assign_def)
  have c3: "\<exists>s'. run u [Refresh, Refresh, Settle (next_rid s) (Fulfilled r1)] s = Some s' \<and>
         Suc (next_rid s) \<in> set (pending s')"
    using j by (simp add: s2_def [symmetric] a assign_frame)
  have c4: "\<exists>s'. run u [Refresh, Refresh, Settle (Suc (next_rid s)) (Fulfilled r2)] s = Some s' \<and>
         next_rid s \<in> set (pending s')"
    using i by (simp add: s2_def [symmetric] b assign_frame)
  from c1 c2 c3 c4 show ?thesis by blast
qed

section \<open>Pagination\<close>

text \<open>
  C7. For every integer \<open>p\<close> and every state: writing \<open>p\<close> to \<^verbatim>\<open>currentPage\<close> makes
  \<^verbatim>\<open>currentPage\<close> equal to \<open>p\<close>, issues no request (the requests sent and the requests in
  flight are the same as before), and leaves \<^verbatim>\<open>$scope.pilots\<close> and \<^verbatim>\<open>pageSize\<close> as they
  were.
\<close>

theorem C7_set_page:
  "\<exists>s'. step u (SetPage (JNum (of_int p))) s = Some s' \<and>
        currentPage (scope s') = Some (JNum (of_int p)) \<and>
        view_currentPage s' = JNum (of_int p) \<and>
        get_urls (trace s') = get_urls (trace s) \<and>
        pending s' = pending s \<and>
        pilots (scope s') = pilots (scope s) \<and>
        pilots_writes (trace s') = pilots_writes (trace s) \<and>
        pageSize (scope s') = pageSize (scope s)"
  by (simp add: assign_frame assign_pagination_keeps_pilots view_currentPage_def read_prop_def)
     (simp add: assign_def)

section \<open>What the view can see of the collection\<close>

text \<open>
  C5, as the code has it. In every state reached from the initialised controller by calls
  of \<^verbatim>\<open>getData\<close>, settled requests and pagination writes, \<^verbatim>\<open>$scope.pilots\<close> is the payload
  of the last request that was fulfilled, and it is unassigned, read as \<^verbatim>\<open>undefined\<close>, when
  no request has been fulfilled yet.
\<close>

theorem C5_collection_invariant:
  assumes "run u es (initialized u) = Some s'"
  shows "pilots (scope s') = last_success es \<and>
         view_pilots s' = (case last_success es of None \<Rightarrow> JUndefined | Some v \<Rightarrow> v)"
proof -
  have "pilots (scope (initialized u)) = None"
    by (simp add: initialized_eq)
  with run_pilots [OF assms] have "pilots (scope s') = last_success es"
    by (simp split: option.splits)
  then show ?thesis
    by (simp add: view_pilots_def read_prop_def)
qed

theorem C5_collection_invariant_witness:
  "run \<lparr>pilots_json = ''/pilots.json''\<rparr>
     [Settle 0 (Fulfilled \<lparr>data = JArr [JStr ''Alice'', JStr ''Bob''], status = 200\<rparr>),
      SetPage (JNum 2), Refresh,
      Settle 1 (Rejected \<lparr>data = JNull, status = 500\<rparr>)]
     (initialized \<lparr>pilots_json = ''/pilots.json''\<rparr>)
   = Some \<lparr>scope = \<lparr>pilots = Some (JArr [JStr ''Alice'', JStr ''Bob'']),
                    currentPage = Some (JNum 2), pageSize = Some (JStr ''50'')\<rparr>,
           pending = [],
           trace = [Assign F_currentPage (JNum 1), Assign F_pageSize (JStr ''50''),
                    Get 0 ''/pilots.json'',
                    Assign F_pilots (JArr [JStr ''Alice'', JStr ''Bob'']),
                    Assign F_currentPage (JNum 2), Get 1 ''/pilots.json'']\<rparr> \<and>
   last_success
     [Settle 0 (Fulfilled \<lparr>data = JArr [JStr ''Alice'', JStr ''Bob''], status = 200\<rparr>),
      SetPage (JNum 2), Refresh,
      Settle 1 (Rejected \<lparr>data = JNull, status = 500\<rparr>)]
   = Some (JArr [JStr ''Alice'', JStr ''Bob''])"
proof -
  have r: "run \<lparr>pilots_json = ''/pilots.json''\<rparr>
     [Settle 0 (Fulfilled \<lparr>data = JArr [JStr ''Alice'', JStr ''Bob''], status = 200\<rparr>),
      SetPage (JNum 2), Refresh,
      Settle 1 (Rejected \<lparr>data = JNull, status = 500\<rparr>)]
     (initialized \<lparr>pilots_json = ''/pilots.json''\<rparr>)
   = Some \<lparr>scope = \<lparr>pilots = Some (JArr [JStr ''Alice'', JStr ''Bob'']),
                    currentPage = Some (JNum 2), pageSize = Some (JStr ''50'')\<rparr>,
           pending = [],
           trace = [Assign F_currentPage (JNum 1), Assign F_pageSize (JStr ''50''),
                    Get 0 ''/pilots.json'',
                    Assign F_pilots (JArr [JStr ''Alice'', JStr ''Bob'']),
                    Assign F_currentPage (JNum 2), Get 1 ''/pilots.json'']\<rparr>"
    by (simp add: initialized_eq settle_def then_promise_def getData_success_def
        getData_unsuccessful_def getData_eq assign_def next_rid_def)
  from C5_collection_invariant [OF r] r show ?thesis by simp
qed

text \<open>
  C5 as it is written fails: after the request of the controller has been rejected and the
  view has moved to page 3, no request has been fulfilled, and the view reads
  \<^verbatim>\<open>undefined\<close>, which is not the empty sequence.
\<close>

theorem C5_counterexample:
  "map_option view_pilots
     (run \<lparr>pilots_json = ''/pilots.json''\<rparr>
        [Settle 0 (Rejected \<lparr>data = JNull, status = 503\<rparr>), SetPage (JNum 3)]
        (initialized \<lparr>pilots_json = ''/pilots.json''\<rparr>))
     = Some JUndefined \<and>
   JUndefined \<noteq> JArr [] \<and>
   last_success [Settle 0 (Rejected \<lparr>data = JNull, status = 503\<rparr>), SetPage (JNum 3)] = None"
  by (simp add: initialized_eq settle_rejected assign_def view_pilots_def read_prop_def)

text \<open>
  C10. As long as no request has been fulfilled, whatever calls of \<^verbatim>\<open>getData\<close>, rejected
  requests and pagination writes have happened since the controller ran,
  \<^verbatim>\<open>$scope.pilots\<close> has never been assigned: the property is absent, the view reads
  \<^verbatim>\<open>undefined\<close> and not the empty sequence, and the history holds no write to it.
\<close>

theorem C10_pilots_absent_until_success:
  assumes "list_all (\<lambda>e. \<not> is_success e) es"
    and "run u es (initialized u) = Some s'"
  shows "pilots (scope s') = None \<and>
         pilots_writes (trace s') = [] \<and>
         view_pilots s' = JUndefined \<and>
         view_pilots s' \<noteq> JArr []"
proof -
  have init: "pilots (scope (initialized u)) = None" "pilots_writes (trace (initialized u)) = []"
    by (simp_all add: initialized_eq)
  have absent: "pilots (scope s') = None"
    using run_pilots [OF assms(2)] no_success_last_success [OF assms(1)] init(1) by simp
  have "pilots_writes (trace s') = []"
    using run_no_write [OF assms(2) assms(1)] init(2) by simp
  with absent show ?thesis
    by (simp add: view_pilots_def read_prop_def)
qed

theorem C10_pilots_absent_until_success_witness:
  "list_all (\<lambda>e. \<not> is_success e)
     [Settle 0 (Rejected \<lparr>data = JStr ''Forbidden'', status = 403\<rparr>), SetPageSize (JStr ''100''),
      Refresh, SetPage (JNum 4)] \<and>
   run \<lparr>pilots_json = ''/pilots.json''\<rparr>
     [Settle 0 (Rejected \<lparr>data = JStr ''Forbidden'', status = 403\<rparr>), SetPageSize (JStr ''100''),
      Refresh, SetPage (JNum 4)]
     (initialized \<lparr>pilots_json = ''/pilots.json''\<rparr>)
   = Some \<lparr>scope = \<lparr>pilots = None, currentPage = Some (JNum 4), pageSize = Some (JStr ''100'')\<rparr>,
           pending = [1],
           trace = [Assign F_currentPage (JNum 1), Assign F_pageSize (JStr ''50''),
                    Get 0 ''/pilots.json'', Assign F_pageSize (JStr ''100''),
                    Get 1 ''/pilots.json'', Assign F_currentPage (JNum 4)]\<rparr> \<and>
   view_pilots
     \<lparr>scope = \<lparr>pilots = None, currentPage = Some (JNum 4), pageSize = Some (JStr ''100'')\<rparr>,
      pending = [1],
      trace = [Assign F_currentPage (JNum 1), Assign F_pageSize (JStr ''50''),
               Get 0 ''/pilots.json'', Assign F_pageSize (JStr ''100''),
               Get 1 ''/pilots.json'', Assign F_currentPage (JNum 4)]\<rparr> = JUndefined"
proof -
  have quiet: "list_all (\<lambda>e. \<not> is_success e)
     [Settle 0 (Rejected \<lparr>data = JStr ''Forbidden'', status = 403\<rparr>), SetPageSize (JStr ''100''),
      Refresh, SetPage (JNum 4)]"
    by simp
  have r: "run \<lparr>pilots_json = ''/pilots.json''\<rparr>
     [Settle 0 (Rejected \<lparr>data = JStr ''Forbidden'', status = 403\<rparr>), SetPageSize (JStr ''100''),
      Refresh, SetPage (JNum 4)]
     (initialized \<lparr>pilots_json = ''/pilots.json''\<rparr>)
   = Some \<lparr>scope = \<lparr>pilots = None, currentPage = Some (JNum 4), pageSize = Some (JStr ''100'')\<rparr>,
           pending = [1],
           trace = [Assign F_currentPage (JNum 1), Assign F_pageSize (JStr ''50''),
                    Get 0 ''/pilots.json'', Assign F_pageSize (JStr ''100''),
                    Get 1 ''/pilots.json'', Assign F_currentPage (JNum 4)]\<rparr>"
    by (simp add: initialized_eq settle_def then_promise_def getData_unsuccessful_def
        getData_eq assign_def next_rid_def)
  from C10_pilots_absent_until_success [OF quiet r] quiet r show ?thesis by simp
qed

end
